theory Spec2Isabelle
  imports
    Complex_Main
    "HOL-Library.Sublist"
    "HOL-Library.List_Lexorder"
begin

section \<open>Python values the code works with\<close>

text \<open>
  A Python \<open>str\<close> is the list of its code points, so \<^const>\<open>length\<close> counts what \<open>len\<close>
  counts and slicing is \<^const>\<open>take\<close> and \<^const>\<open>drop\<close>. The string literals of the source
  are ASCII; \<open>ascii\<close> turns a literal into its code points. Exceptions are values of
  \<open>exn\<close>; a call that may raise returns \<open>exn + 'a\<close>.
\<close>

type_synonym pystr = "nat list"

definition ascii :: "string \<Rightarrow> pystr" where
  "ascii s = map of_char s"

datatype exn =
    JSONDecodeError
  | UnicodeEncodeError
  | ValueError
  | KeyError
  | TypeError
  | AttributeError
  | RecursionError
  | OtherError string

subsection \<open>JSON values\<close>

text \<open>
  The values \<open>json.loads\<close> produces and \<open>json.dumps\<close> consumes. A \<open>dict\<close> is an
  association list in insertion order, with \<open>dict.get\<close> reading the entry of a key; an
  \<open>int\<close> is unbounded; a finite \<open>float\<close> is held as the rational number it is equal to.
\<close>

datatype pyfloat = Finite rat | NegZero | PosInf | NegInf | NaN

datatype json =
    JNull
  | JBool bool
  | JInt int
  | JFloat pyfloat
  | JString pystr
  | JArray "json list"
  | JObject "(pystr \<times> json) list"

text \<open>\<open>d.get(key, default)\<close>\<close>

definition dict_get :: "(pystr \<times> json) list \<Rightarrow> pystr \<Rightarrow> json \<Rightarrow> json" where
  "dict_get d k dflt = (case map_of d k of None \<Rightarrow> dflt | Some v \<Rightarrow> v)"

subsection \<open>The library\<close>

text \<open>
  What the code takes from the Python library and does not define itself, as the fields
  of a record that every function of the model receives:
  \<^item> \<open>digest prompt\<close>: the number \<open>int(hashlib.md5(prompt.encode()).hexdigest(), 16)\<close>, for
    a prompt that \<open>encode\<close> accepts;
  \<^item> \<open>unicode_lower s i\<close>: what \<open>s.lower()\<close> writes for the character at position \<open>i\<close> of
    \<open>s\<close> when that character is not ASCII (one code point or several, and for some
    characters depending on their neighbours);
  \<^item> \<open>json_dumps\<close> and \<open>json_loads\<close>: \<open>json.dumps\<close> and \<open>json.loads\<close>, the second with the
    exception it raises on a text it does not accept.

  Every theorem holds for every such record; where a theorem needs to know what the
  library does on a text, it says so in a hypothesis.
\<close>

record python =
  digest :: "pystr \<Rightarrow> nat"
  unicode_lower :: "pystr \<Rightarrow> nat \<Rightarrow> pystr"
  json_dumps :: "json \<Rightarrow> pystr"
  json_loads :: "pystr \<Rightarrow> exn + json"

subsection \<open>String methods\<close>

text \<open>
  \<open>s.lower()\<close>: an ASCII capital becomes its small letter, every other ASCII character
  stays, and the library says what a character beyond ASCII becomes.
\<close>

definition ascii_lower :: "nat \<Rightarrow> nat" where
  "ascii_lower c = (if 65 \<le> c \<and> c \<le> 90 then c + 32 else c)"

fun lower_from :: "python \<Rightarrow> pystr \<Rightarrow> nat \<Rightarrow> pystr \<Rightarrow> pystr" where
  "lower_from py s i [] = []"
| "lower_from py s i (c # cs) =
     (if c < 128 then [ascii_lower c] else unicode_lower py s i) @ lower_from py s (Suc i) cs"

definition py_lower :: "python \<Rightarrow> pystr \<Rightarrow> pystr" where
  "py_lower py s = lower_from py s 0 s"

text \<open>The characters \<open>str.strip()\<close> removes: those for which \<open>isspace()\<close> holds.\<close>

definition py_isspace :: "nat \<Rightarrow> bool" where
  "py_isspace c =
     ((9 \<le> c \<and> c \<le> 13) \<or> (28 \<le> c \<and> c \<le> 32) \<or> c = 133 \<or> c = 160 \<or> c = 5760
      \<or> (8192 \<le> c \<and> c \<le> 8202) \<or> c = 8232 \<or> c = 8233 \<or> c = 8239 \<or> c = 8287
      \<or> c = 12288)"

text \<open>\<open>s.strip()\<close>\<close>

definition py_strip :: "pystr \<Rightarrow> pystr" where
  "py_strip s = rev (dropWhile py_isspace (rev (dropWhile py_isspace s)))"

text \<open>\<open>sub in s\<close>\<close>

fun py_in :: "pystr \<Rightarrow> pystr \<Rightarrow> bool" where
  "py_in sub [] = (sub = [])"
| "py_in sub (c # cs) = (prefix sub (c # cs) \<or> py_in sub cs)"

text \<open>
  \<open>s.index(sub)\<close>: the first position where \<open>sub\<close> starts; \<open>None\<close> stands for the
  \<open>ValueError\<close> Python raises when there is none.
\<close>

fun py_index :: "pystr \<Rightarrow> pystr \<Rightarrow> nat option" where
  "py_index sub [] = (if sub = [] then Some 0 else None)"
| "py_index sub (c # cs) =
     (if prefix sub (c # cs) then Some 0 else map_option Suc (py_index sub cs))"

text \<open>\<open>s.count(sub)\<close>: occurrences counted from the left without overlap.\<close>

fun py_count :: "pystr \<Rightarrow> pystr \<Rightarrow> nat" where
  "py_count sub [] = (if sub = [] then 1 else 0)"
| "py_count sub (c # cs) =
     (if sub = [] then Suc (py_count sub cs)
      else if prefix sub (c # cs) then Suc (py_count sub (drop (length sub - 1) cs))
      else py_count sub cs)"

text \<open>\<open>s.replace(old, new)\<close>: every occurrence, from the left, without overlap.\<close>

fun py_replace :: "pystr \<Rightarrow> pystr \<Rightarrow> pystr \<Rightarrow> pystr" where
  "py_replace old new [] = (if old = [] then new else [])"
| "py_replace old new (c # cs) =
     (if old = [] then new @ c # py_replace old new cs
      else if prefix old (c # cs) then new @ py_replace old new (drop (length old - 1) cs)
      else c # py_replace old new cs)"

text \<open>\<open>str(n)\<close> for a natural number, in decimal digits.\<close>

fun str_nat :: "nat \<Rightarrow> pystr" where
  "str_nat n = (if n < 10 then [48 + n] else str_nat (n div 10) @ [48 + n mod 10])"

text \<open>
  \<open>s.encode()\<close> raises \<open>UnicodeEncodeError\<close> on a string that holds a surrogate code
  point, and on no other.
\<close>

definition is_surrogate :: "nat \<Rightarrow> bool" where
  "is_surrogate c = (55296 \<le> c \<and> c \<le> 57343)"

definition encodable :: "pystr \<Rightarrow> bool" where
  "encodable s = list_all (\<lambda>c. \<not> is_surrogate c) s"

section \<open>\<open>app/integrations/watsonx_ai.py\<close>\<close>

text \<open>
  The client of the generation backend. The SDK's \<open>ModelInference\<close> object is what its
  \<open>generate_text\<close> method does: from a prompt, a text or an exception. The constructor of
  the SDK is a parameter of the client's constructor, absent when the SDK is not installed.
  The logger is not part of the sources and is taken to do nothing but log.
\<close>

type_synonym model_inference = "pystr \<Rightarrow> exn + pystr"

type_synonym sdk = "pystr \<Rightarrow> pystr \<Rightarrow> pystr \<Rightarrow> pystr \<Rightarrow> exn + model_inference"

record watsonx_ai =
  api_key :: "pystr option"
  watsonx_url :: pystr
  project_id :: "pystr option"
  model_id :: pystr
  model :: "model_inference option"
  use_stub :: bool

text \<open>\<open>not value\<close> for an optional string: \<open>None\<close> and the empty string are false.\<close>

definition py_not :: "pystr option \<Rightarrow> bool" where
  "py_not v = (v = None \<or> v = Some [])"

text \<open>
  \<open>WatsonxAI.__init__\<close>: \<open>env\<close> is the process environment read by \<open>os.getenv\<close>, \<open>sdk\<close> the
  constructor of \<open>ModelInference\<close> applied to the URL, the key, the model and the project
  (\<open>None\<close> stands for \<open>WATSONX_AVAILABLE = False\<close>).
\<close>

definition WatsonxAI_init :: "(string \<rightharpoonup> pystr) \<Rightarrow> sdk option \<Rightarrow> pystr \<Rightarrow> watsonx_ai" where
  "WatsonxAI_init env sdk mid =
     (let self = \<lparr> api_key = env ''WATSONX_API_KEY'',
                    watsonx_url = (case env ''WATSONX_URL'' of
                                     None \<Rightarrow> ascii ''https://us-south.ml.cloud.ibm.com''
                                   | Some u \<Rightarrow> u),
                    project_id = env ''WATSONX_PROJECT_ID'',
                    model_id = mid,
                    model = None,
                    use_stub = False \<rparr>
      in if py_not (api_key self) \<or> py_not (project_id self) then self\<lparr>use_stub := True\<rparr>
         else
           (case (sdk, api_key self, project_id self) of
              (Some connect, Some key, Some project) \<Rightarrow>
                (case connect (watsonx_url self) key (model_id self) project of
                   Inr m \<Rightarrow> self\<lparr>model := Some m\<rparr>
                 | Inl e \<Rightarrow> self\<lparr>use_stub := True\<rparr>)
            | _ \<Rightarrow> self\<lparr>use_stub := True\<rparr>))"

definition default_model_id :: pystr where
  "default_model_id = ascii ''ibm/granite-3-8b-instruct''"

subsection \<open>The stub responder\<close>

text \<open>The text of the synthetic disclosure, around its two numbers.\<close>

definition idf_head :: pystr where
  \<open>idf_head =
     ascii
      (''\<newline>'' @
       ''Title: Generated Invention Disclosure ('')\<close>

definition idf_mid :: pystr where
  \<open>idf_mid =
     ascii
      ('')\<newline>'' @
       ''\<newline>'' @
       ''Background:\<newline>'' @
       ''Technical innovation system designed for improved performance metrics.\<newline>'' @
       ''\<newline>'' @
       ''Key Innovations:\<newline>'' @
       ''1. Primary technical advancement for system efficiency\<newline>'' @
       ''2. Secondary optimization approach for resource management\<newline>'' @
       ''3. Tertiary enhancement for scalability\<newline>'' @
       ''\<newline>'' @
       ''Technical Details:\<newline>'' @
       ''- Performance improvement: '')\<close>

definition idf_tail :: pystr where
  \<open>idf_tail =
     ascii
      (''%\<newline>'' @
       ''- Complexity metric: O(n log n)\<newline>'' @
       ''- Resource efficiency: Enhanced\<newline>'')\<close>

text \<open>
  \<open>WatsonxAI._stub_generate\<close>, in two steps. The first lowercases the prompt and encodes
  it for the digest, which is where the call raises on a prompt that does not encode. The
  second, \<open>stub_reply\<close>, is the chain of branches, tried in the source's order, with the
  prompt, the lowercased prompt and the digest at hand; each JSON reply is what
  \<open>json.dumps\<close> writes for the dictionary or list the source builds.
  \<open>float(similarity_score)\<close> is exact, the score being at most 95.
\<close>

definition stub_reply :: "python \<Rightarrow> pystr \<Rightarrow> pystr \<Rightarrow> nat \<Rightarrow> pystr" where
  "stub_reply py prompt prompt_lower prompt_hash =
     (let seed_score = prompt_hash mod 40 + 40
      in if py_in (ascii ''patentability'') prompt_lower
            \<or> py_in (ascii ''patentable'') prompt_lower then
           (let is_patentable =
                  (py_in (ascii ''device'') prompt_lower
                   \<or> py_in (ascii ''method'') prompt_lower
                   \<or> py_in (ascii ''system'') prompt_lower
                   \<or> py_in (ascii ''process'') prompt_lower);
                confidence = 60 + prompt_hash mod 35
            in json_dumps py (JObject
                 [(ascii ''isPatentable'', JBool is_patentable),
                  (ascii ''confidence'', JInt (int (min 95 confidence))),
                  (ascii ''reasoning'', JString (ascii ''Analysis indicates ''
                      @ (if is_patentable then ascii ''patentable''
                         else ascii ''publishable'')
                      @ ascii '' disclosure'')),
                  (ascii ''missingElements'',
                     JArray (if is_patentable then []
                             else [JString (ascii ''Specific implementation details''),
                                   JString (ascii ''Manufacturing specifications'')])),
                  (ascii ''recommendations'',
                     JArray [JString (ascii ''Review disclosure against prior art''),
                             JString (ascii ''Consider claim scope'')])]))
         else if py_in (ascii ''similarity'') prompt_lower
                 \<or> py_in (ascii ''compare'') prompt_lower then
           (let innovation_count =
                  py_count (ascii ''innovation'') prompt_lower
                  + py_count (ascii ''feature'') prompt_lower;
                base_score = seed_score + innovation_count * 2;
                similarity_score = min 95 (max 10 base_score)
            in json_dumps py (JObject
                 [(ascii ''similarity_score'', JFloat (Finite (of_nat similarity_score))),
                  (ascii ''overlapping_concepts'',
                     JArray (if 60 < similarity_score
                             then [JString (ascii ''Technical architecture similarity''),
                                   JString (ascii ''Implementation approach''),
                                   JString (ascii ''Performance optimization strategy'')]
                             else [JString (ascii ''Generic technological domain'')])),
                  (ascii ''key_differences'',
                     JArray [JString (ascii ''Novel algorithm implementation''),
                             JString (ascii ''Enhanced efficiency metrics''),
                             JString (ascii ''Improved scaling approach'')])]))
         else if py_in (ascii ''innovation'') prompt_lower
                 \<or> py_in (ascii ''extract'') prompt_lower then
           (let num_innovations = 3 + length prompt div 500;
                innovations =
                  map (\<lambda>i. JString (ascii ''Technical innovation '' @ str_nat (i + 1)))
                    [0 ..< min 5 num_innovations]
            in json_dumps py (JArray innovations))
         else if py_in (ascii ''invention disclosure'') prompt_lower
                 \<and> py_in (ascii ''convert'') prompt_lower then
           idf_head @ str_nat (prompt_hash mod 1000) @ idf_mid
           @ str_nat (40 + prompt_hash mod 40) @ idf_tail
         else
           ascii ''Analysis generated with dynamic response (seed: ''
           @ str_nat (prompt_hash mod 10000) @ ascii '')'')"

definition stub_generate :: "python \<Rightarrow> pystr \<Rightarrow> exn + pystr" where
  "stub_generate py prompt =
     (let prompt_lower = py_lower py prompt
      in if \<not> encodable prompt then Inl UnicodeEncodeError
         else Inr (stub_reply py prompt prompt_lower (digest py prompt)))"

subsection \<open>The client's methods\<close>

text \<open>
  Each method returns its outcome, a value or the exception it raises, together with the
  client object after the call, so that what a call does to the object can be stated.
  \<open>max_tokens\<close> and \<open>temperature\<close> are accepted by the source and used by nothing; they
  are left out.

  \<open>WatsonxAI.generate\<close>: the backend's text, stripped, when there is a backend and its
  call returns; what the stub does otherwise, also inside the \<open>except\<close> branch, from where
  an exception of the stub leaves the method.
\<close>

definition generate :: "python \<Rightarrow> watsonx_ai \<Rightarrow> pystr \<Rightarrow> (exn + pystr) \<times> watsonx_ai" where
  "generate py self prompt =
     (if use_stub self \<or> model self = None then (stub_generate py prompt, self)
      else
        (case model self of
           None \<Rightarrow> (stub_generate py prompt, self)
         | Some m \<Rightarrow>
             (case m prompt of
                Inr response \<Rightarrow> (Inr (py_strip response), self)
              | Inl e \<Rightarrow> (stub_generate py prompt, self))))"

text \<open>\<open>response.replace('```json', '').replace('```', '').strip()\<close>\<close>

definition clean_response :: "pystr \<Rightarrow> pystr" where
  "clean_response response =
     py_strip (py_replace (ascii ''```'') [] (py_replace (ascii ''```json'') [] response))"

text \<open>
  \<open>WatsonxAI.generate_json\<close>: the parsed value, or the exception of \<open>json.loads\<close>, which
  the handler logs and raises again; an exception of \<open>generate\<close> leaves the method before
  anything is parsed.
\<close>

definition generate_json ::
  "python \<Rightarrow> watsonx_ai \<Rightarrow> pystr \<Rightarrow> (exn + json) \<times> watsonx_ai" where
  "generate_json py self prompt =
     (case generate py self prompt of
        (Inl e, self') \<Rightarrow> (Inl e, self')
      | (Inr response, self') \<Rightarrow>
          (let cleaned = clean_response response
           in (case json_loads py cleaned of
                 Inr v \<Rightarrow> (Inr v, self')
               | Inl e \<Rightarrow> (Inl e, self'))))"

text \<open>The patentability prompt, the same text in both classes.\<close>

definition patentability_head :: pystr where
  \<open>patentability_head =
     ascii
      (''\<newline>'' @
       ''Analyze if this invention disclosure is PATENTABLE or just PUBLISHABLE research.\<newline>'' @
       ''\<newline>'' @
       ''PATENTABLE inventions have:\<newline>'' @
       ''- Specific device design, process steps, or method\<newline>'' @
       ''- Industrial application (can be manufactured/used)\<newline>'' @
       ''- Technical details (numbers, materials, configurations)\<newline>'' @
       ''\<newline>'' @
       ''PUBLISHABLE-ONLY research:\<newline>'' @
       ''- Only theory or experimental results\<newline>'' @
       ''- No specific implementation\<newline>'' @
       ''- Just observations or discoveries\<newline>'' @
       ''\<newline>'' @
       ''Disclosure (first 2000 chars):\<newline>'')\<close>

definition patentability_tail :: pystr where
  \<open>patentability_tail =
     ascii
      (''\<newline>'' @
       ''\<newline>'' @
       ''Respond with ONLY valid JSON:\<newline>'' @
       ''{\<newline>'' @
       ''    "isPatentable": true/false,\<newline>'' @
       ''    "confidence": 0-100,\<newline>'' @
       ''    "reasoning": "brief explanation",\<newline>'' @
       ''    "missingElements": ["element1", "element2"],\<newline>'' @
       ''    "recommendations": ["add specific device details", "define manufacturing process"]\<newline>'' @
       ''}\<newline>'' @
       ''\<newline>'' @
       ''DO NOT include any text before or after the JSON.\<newline>'')\<close>

definition patentability_prompt :: "pystr \<Rightarrow> pystr" where
  "patentability_prompt text = patentability_head @ take 2000 text @ patentability_tail"

text \<open>\<open>WatsonxAI.assess_patentability\<close>\<close>

definition ai_assess_patentability ::
  "python \<Rightarrow> watsonx_ai \<Rightarrow> pystr \<Rightarrow> (exn + json) \<times> watsonx_ai" where
  "ai_assess_patentability py self text = generate_json py self (patentability_prompt text)"

section \<open>\<open>app/ml_services/claim_extractor.py\<close>\<close>

text \<open>
  The extractor holds the two clients. The NLU client is not part of the sources; it is
  what its \<open>analyze\<close> method does: from a text, the value it returns or the exception it
  raises. Its result is a JSON value of any shape, so that a malformed result is an input
  like any other.
\<close>

record claim_extractor =
  watsonx_nlu :: "pystr \<Rightarrow> exn + json"
  watsonx_ai :: watsonx_ai

text \<open>The dictionary \<open>assess_patentability\<close> returns.\<close>

record patentability_result =
  isPatentable :: json
  confidence :: json
  missingElements :: json
  recommendations :: json

text \<open>The dictionary of the \<open>except\<close> branch.\<close>

definition assessment_failed :: patentability_result where
  "assessment_failed =
     \<lparr> isPatentable = JBool True,
       confidence = JInt 60,
       missingElements = JArray [],
       recommendations =
         JArray [JString (ascii ''Manual review recommended - automated assessment failed'')] \<rparr>"

text \<open>
  \<open>ClaimExtractor.assess_patentability\<close>. Everything after the prompt is inside the
  \<open>try\<close>: an exception of \<open>generate\<close>, an exception of \<open>json.loads\<close>, and the
  \<open>AttributeError\<close> of \<open>result.get\<close> on a parsed value that is not a dictionary, all end
  in the \<open>except\<close> branch.
\<close>

definition assess_patentability ::
  "python \<Rightarrow> claim_extractor \<Rightarrow> pystr \<Rightarrow> patentability_result" where
  "assess_patentability py self text =
     (let prompt = patentability_prompt text
      in (case fst (generate py (watsonx_ai self) prompt) of
            Inl e \<Rightarrow> assessment_failed
          | Inr response \<Rightarrow>
              (let cleaned = clean_response response
               in (case json_loads py cleaned of
                     Inr (JObject result) \<Rightarrow>
                       \<lparr> isPatentable = dict_get result (ascii ''isPatentable'') (JBool True),
                         confidence = dict_get result (ascii ''confidence'') (JInt 50),
                         missingElements = dict_get result (ascii ''missingElements'') (JArray []),
                         recommendations =
                           dict_get result (ascii ''recommendations'') (JArray []) \<rparr>
                   | _ \<Rightarrow> assessment_failed))))"

subsection \<open>Background\<close>

text \<open>
  The loop of \<open>_extract_background\<close> over the patterns. \<open>text_lower.index(pattern)\<close> is
  reached only under \<open>pattern in text_lower\<close>, where it finds a position.
\<close>

fun scan_patterns :: "pystr \<Rightarrow> pystr \<Rightarrow> pystr list \<Rightarrow> pystr option" where
  "scan_patterns text text_lower [] = None"
| "scan_patterns text text_lower (pattern # patterns) =
     (if py_in pattern text_lower then
        (case py_index pattern text_lower of
           Some start \<Rightarrow>
             (let background = py_strip (take 500 (drop start text))
              in if background \<noteq> [] then Some background
                 else scan_patterns text text_lower patterns)
         | None \<Rightarrow> scan_patterns text text_lower patterns)
      else scan_patterns text text_lower patterns)"

definition background_patterns :: "pystr list" where
  "background_patterns =
     map ascii
       [''background'', ''prior art'', ''field of invention'', ''technical field'',
        ''problem'', ''introduction'', ''overview'']"

text \<open>\<open>ClaimExtractor._extract_background\<close>\<close>

definition extract_background :: "python \<Rightarrow> pystr \<Rightarrow> pystr" where
  "extract_background py text =
     (if text = [] then ascii ''No disclosure text provided''
      else
        (case scan_patterns text (py_lower py text) background_patterns of
           Some background \<Rightarrow> background
         | None \<Rightarrow>
             (let background = py_strip (take 300 text)
              in if background \<noteq> [] then background
                 else ascii ''Technical disclosure provided'')))"

subsection \<open>Innovations\<close>

definition innovations_head :: pystr where
  \<open>innovations_head =
     ascii
      (''\<newline>'' @
       ''Extract the 3-5 key technical innovations from this disclosure.\<newline>'' @
       ''Focus on WHAT is new, not WHY it\'s important.\<newline>'' @
       ''\<newline>'' @
       ''Disclosure:\<newline>'')\<close>

definition innovations_tail :: pystr where
  \<open>innovations_tail =
     ascii
      (''\<newline>'' @
       ''\<newline>'' @
       ''Return JSON list:\<newline>'' @
       ''["Innovation 1", "Innovation 2", ...]\<newline>'')\<close>

text \<open>
  \<open>ClaimExtractor._extract_innovations\<close>: the parsed list when it is a non-empty list, the
  placeholder on every other outcome, an exception of \<open>generate\<close> or of \<open>json.loads\<close>
  among them. The NLU result is a parameter the source never reads.
\<close>

definition extract_innovations ::
  "python \<Rightarrow> claim_extractor \<Rightarrow> pystr \<Rightarrow> json \<Rightarrow> json list" where
  "extract_innovations py self text nlu_result =
     (let prompt = innovations_head @ take 1500 text @ innovations_tail;
          failed = [JString (ascii ''Innovation extraction failed - manual review needed'')]
      in (case fst (generate py (watsonx_ai self) prompt) of
            Inl e \<Rightarrow> failed
          | Inr response \<Rightarrow>
              (let cleaned = clean_response response
               in (case json_loads py cleaned of
                     Inr (JArray innovations) \<Rightarrow>
                       if innovations \<noteq> [] then innovations else failed
                   | _ \<Rightarrow> failed))))"

subsection \<open>Classification\<close>

text \<open>The table of \<open>_classify_ipc\<close>, in the order it is written.\<close>

definition ipc_mapping :: "(pystr \<times> pystr list) list" where
  "ipc_mapping =
     map (\<lambda>(term, codes). (ascii term, map ascii codes))
       [(''battery'', [''H01M10/05'']),
        (''electrolyte'', [''H01M10/0562'']),
        (''lithium'', [''H01M10/0525'']),
        (''drug'', [''A61K31'']),
        (''pharmaceutical'', [''A61K'']),
        (''neural network'', [''G06N3/08'']),
        (''machine learning'', [''G06N20/00'']),
        (''sensor'', [''G01D5/00'']),
        (''semiconductor'', [''H01L29/00'']),
        (''database'', [''G06F16'']),
        (''communication'', [''H04L'']),
        (''wireless'', [''H04W'']),
        (''software'', [''G06F'']),
        (''algorithm'', [''G06F'']),
        (''network'', [''H04L'']),
        (''medical'', [''A61'']),
        (''chemical'', [''C01'']),
        (''polymer'', [''C08'']),
        (''metal'', [''C22'']),
        (''engine'', [''F02'']),
        (''mechanical'', [''F16'']),
        (''display'', [''G09'']),
        (''optics'', [''G02''])]"

text \<open>
  The inner loop over the table for one lowercased keyword, and the outer loop over the
  keywords; \<open>codes\<close> is the set being filled.
\<close>

fun match_terms :: "pystr \<Rightarrow> (pystr \<times> pystr list) list \<Rightarrow> pystr set \<Rightarrow> pystr set" where
  "match_terms keyword_lower [] codes = codes"
| "match_terms keyword_lower ((term, ipc_codes) # items) codes =
     match_terms keyword_lower items
       (if py_in term keyword_lower then codes \<union> set ipc_codes else codes)"

fun collect_codes :: "python \<Rightarrow> pystr list \<Rightarrow> pystr set \<Rightarrow> pystr set" where
  "collect_codes py [] codes = codes"
| "collect_codes py (keyword # keywords) codes =
     collect_codes py keywords (match_terms (py_lower py keyword) ipc_mapping codes)"

text \<open>
  \<open>ClaimExtractor._classify_ipc\<close> on a list of strings; \<open>sorted\<close> orders strings by
  their code points.
\<close>

definition classify_ipc :: "python \<Rightarrow> pystr list \<Rightarrow> pystr list" where
  "classify_ipc py keywords =
     (let codes = collect_codes py keywords {};
          codes = (if codes = {} then {ascii ''G06F''} else codes)
      in sorted_list_of_set codes)"

subsection \<open>Extraction\<close>

text \<open>
  What Python does with a value that the NLU client returned: \<open>nlu_result.get\<close> exists on
  a dictionary only; \<open>for kw in value\<close> iterates a list, the characters of a string and the
  keys of a dictionary and raises \<open>TypeError\<close> on anything else; \<open>kw['text']\<close> reads a
  dictionary, raises \<open>KeyError\<close> when the key is missing and \<open>TypeError\<close> on a value that
  is not a dictionary; \<open>keyword.lower()\<close> exists on strings only.
\<close>

definition py_iter :: "json \<Rightarrow> exn + json list" where
  "py_iter v =
     (case v of
        JArray xs \<Rightarrow> Inr xs
      | JString s \<Rightarrow> Inr (map (\<lambda>c. JString [c]) s)
      | JObject d \<Rightarrow> Inr (map (\<lambda>kv. JString (fst kv)) d)
      | _ \<Rightarrow> Inl TypeError)"

definition subscript_text :: "json \<Rightarrow> exn + json" where
  "subscript_text kw =
     (case kw of
        JObject d \<Rightarrow> (case map_of d (ascii ''text'') of None \<Rightarrow> Inl KeyError | Some v \<Rightarrow> Inr v)
      | _ \<Rightarrow> Inl TypeError)"

fun keyword_texts :: "json list \<Rightarrow> exn + json list" where
  "keyword_texts [] = Inr []"
| "keyword_texts (kw # kws) =
     (case subscript_text kw of
        Inl e \<Rightarrow> Inl e
      | Inr t \<Rightarrow> (case keyword_texts kws of Inl e \<Rightarrow> Inl e | Inr ts \<Rightarrow> Inr (t # ts)))"

text \<open>\<open>[kw['text'] for kw in nlu_result.get('keywords', [])][:20]\<close>\<close>

definition nlu_keywords :: "json \<Rightarrow> exn + json list" where
  "nlu_keywords nlu_result =
     (case nlu_result of
        JObject d \<Rightarrow>
          (case py_iter (dict_get d (ascii ''keywords'') (JArray [])) of
             Inl e \<Rightarrow> Inl e
           | Inr kws \<Rightarrow>
               (case keyword_texts kws of Inl e \<Rightarrow> Inl e | Inr ts \<Rightarrow> Inr (take 20 ts)))
      | _ \<Rightarrow> Inl AttributeError)"

text \<open>The keywords as \<open>_classify_ipc\<close> needs them: strings, each with a \<open>lower\<close> method.\<close>

fun as_strings :: "json list \<Rightarrow> exn + pystr list" where
  "as_strings [] = Inr []"
| "as_strings (JString s # vs) =
     (case as_strings vs of Inl e \<Rightarrow> Inl e | Inr ss \<Rightarrow> Inr (s # ss))"
| "as_strings (_ # vs) = Inl AttributeError"

text \<open>The dictionary \<open>extract\<close> returns.\<close>

record extracted_claims =
  background :: pystr
  innovations :: "json list"
  "keywords" :: "json list"
  ipcClassifications :: "pystr list"

text \<open>
  \<open>ClaimExtractor.extract\<close>. Nothing in it catches an exception, so one raised by the NLU
  client, by the comprehension or by the classification is the outcome of the call.
\<close>

definition "extract" ::
  "python \<Rightarrow> claim_extractor \<Rightarrow> pystr \<Rightarrow> exn + extracted_claims" where
  "extract py self text =
     (let background' = extract_background py text
      in (case watsonx_nlu self text of
            Inl e \<Rightarrow> Inl e
          | Inr nlu_result \<Rightarrow>
              (let innovations' = extract_innovations py self text nlu_result
               in (case nlu_keywords nlu_result of
                     Inl e \<Rightarrow> Inl e
                   | Inr keywords' \<Rightarrow>
                       (case as_strings keywords' of
                          Inl e \<Rightarrow> Inl e
                        | Inr keyword_strings \<Rightarrow>
                            (let ipc_codes = classify_ipc py keyword_strings
                             in Inr \<lparr> background = background',
                                      innovations =
                                        (if innovations' \<noteq> [] then innovations'
                                         else [JString (ascii ''Innovation extraction pending'')]),
                                      keywords =
                                        (if keywords' \<noteq> [] then keywords'
                                         else [JString (ascii ''disclosure''),
                                               JString (ascii ''analysis'')]),
                                      ipcClassifications =
                                        (if ipc_codes \<noteq> [] then ipc_codes
                                         else [ascii ''G06F'']) \<rparr>))))))"

section \<open>Properties\<close>

subsection \<open>Strings\<close>

text \<open>\<open>sub in s\<close> says that \<open>sub\<close> occurs in \<open>s\<close> as a block.\<close>

lemma py_in_sublist: "py_in sub s = sublist sub s"
  by (induction s) (auto simp: sublist_Cons_right)

text \<open>
  Lowercasing goes character by character, and on ASCII text it does not ask the library.
\<close>

lemma lower_from_append:
  "lower_from py s i (a @ b) = lower_from py s i a @ lower_from py s (i + length a) b"
  by (induction a arbitrary: i) simp_all

lemma lower_from_ascii:
  "list_all (\<lambda>c. c < 128) a \<Longrightarrow> lower_from py s i a = map ascii_lower a"
  by (induction a arbitrary: i) simp_all

lemma py_lower_ascii: "list_all (\<lambda>c. c < 128) s \<Longrightarrow> py_lower py s = map ascii_lower s"
  by (simp add: py_lower_def lower_from_ascii)

lemma py_lower_head:
  assumes "list_all (\<lambda>c. c < 128) a" and "py_in sub (map ascii_lower a)"
  shows "py_in sub (py_lower py (a @ rest))"
proof -
  have "py_lower py (a @ rest) = map ascii_lower a @ lower_from py (a @ rest) (length a) rest"
    by (simp add: py_lower_def lower_from_append lower_from_ascii [OF assms(1)])
  with assms(2) show ?thesis
    by (simp add: py_in_sublist sublist_append)
qed

lemma ascii_encodable: "list_all (\<lambda>c. c < 128) s \<Longrightarrow> encodable s"
  by (induction s) (simp_all add: encodable_def is_surrogate_def)

lemma encodable_append: "encodable (a @ b) = (encodable a \<and> encodable b)"
  by (simp add: encodable_def)

lemma encodable_take: "encodable s \<Longrightarrow> encodable (take n s)"
  by (auto simp: encodable_def list_all_iff dest: in_set_takeD)

subsection \<open>Classification\<close>

text \<open>
  The codes the table gives, in the words of the contract: a code belongs to a lowercased
  keyword when the term of a table entry that lists the code occurs in the keyword, and to
  a keyword list when it belongs to one of its keywords, lowercased.
\<close>

definition entry_codes :: "pystr \<Rightarrow> (pystr \<times> pystr list) list \<Rightarrow> pystr set" where
  "entry_codes keyword_lower items =
     {code. \<exists>entry \<in> set items. py_in (fst entry) keyword_lower \<and> code \<in> set (snd entry)}"

definition matched_codes :: "python \<Rightarrow> pystr list \<Rightarrow> pystr set" where
  "matched_codes py kws = (\<Union>kw \<in> set kws. entry_codes (py_lower py kw) ipc_mapping)"

text \<open>
  An example library. It lowercases nothing beyond ASCII, takes the length of a prompt for
  its digest, and writes and reads the texts of a small table as \<open>json.dumps\<close> and
  \<open>json.loads\<close> do; it reads no other text.
\<close>

definition example_texts :: "(pystr \<times> json) list" where
  \<open>example_texts =
     [(ascii ''{"a":1}'', JObject [(ascii ''a'', JInt 1)]),
      (ascii ''{"confidence": 150}'', JObject [(ascii ''confidence'', JInt 150)]),
      (ascii (''["Technical innovation 1", "Technical innovation 2", ''
              @ ''"Technical innovation 3"]''),
       JArray [JString (ascii ''Technical innovation 1''),
               JString (ascii ''Technical innovation 2''),
               JString (ascii ''Technical innovation 3'')]),
      (ascii (''{"isPatentable": true, "confidence": 93, ''
              @ ''"reasoning": "Analysis indicates patentable disclosure", ''
              @ ''"missingElements": [], ''
              @ ''"recommendations": ["Review disclosure against prior art", ''
              @ ''"Consider claim scope"]}''),
       JObject
         [(ascii ''isPatentable'', JBool True),
          (ascii ''confidence'', JInt 93),
          (ascii ''reasoning'', JString (ascii ''Analysis indicates patentable disclosure'')),
          (ascii ''missingElements'', JArray []),
          (ascii ''recommendations'',
             JArray [JString (ascii ''Review disclosure against prior art''),
                     JString (ascii ''Consider claim scope'')])])]\<close>

definition example_py :: python where
  "example_py =
     \<lparr> digest = length,
       unicode_lower = (\<lambda>s i. [s ! i]),
       json_dumps =
         (\<lambda>v. case find (\<lambda>entry. snd entry = v) example_texts of
                None \<Rightarrow> []
              | Some entry \<Rightarrow> fst entry),
       json_loads =
         (\<lambda>text. case map_of example_texts text of
                   None \<Rightarrow> Inl JSONDecodeError
                 | Some v \<Rightarrow> Inr v) \<rparr>"

lemma entry_codes_Nil: "entry_codes kl [] = {}"
  by (simp add: entry_codes_def)

lemma entry_codes_Cons:
  "entry_codes kl ((t, cs) # items) =
     (if py_in t kl then set cs else {}) \<union> entry_codes kl items"
  by (auto simp: entry_codes_def)

lemma entry_codes_finite: "finite (entry_codes kl items)"
proof (induction items)
  case Nil
  then show ?case by (simp add: entry_codes_Nil)
next
  case (Cons item items)
  obtain t cs where item: "item = (t, cs)" by (cases item)
  from Cons show ?case by (simp add: item entry_codes_Cons)
qed

lemma match_terms_set: "match_terms kl items A = A \<union> entry_codes kl items"
proof (induction items arbitrary: A)
  case Nil
  then show ?case by (simp add: entry_codes_Nil)
next
  case (Cons item items)
  obtain t cs where item: "item = (t, cs)" by (cases item)
  show ?case
    by (simp add: item Cons.IH entry_codes_Cons Un_assoc)
qed

lemma collect_codes_set: "collect_codes py kws A = A \<union> matched_codes py kws"
proof (induction kws arbitrary: A)
  case Nil
  then show ?case by (simp add: matched_codes_def)
next
  case (Cons kw kws)
  show ?case
    by (simp add: Cons.IH match_terms_set matched_codes_def Un_assoc)
qed

lemma matched_codes_finite: "finite (matched_codes py kws)"
  by (simp add: matched_codes_def entry_codes_finite)

lemma classify_ipc_eq:
  "classify_ipc py kws =
     sorted_list_of_set
       (if matched_codes py kws = {} then {ascii ''G06F''} else matched_codes py kws)"
  by (simp add: classify_ipc_def collect_codes_set)

text \<open>The classification of one ASCII keyword does not depend on the library.\<close>

lemma classify_ipc_single:
  assumes "list_all (\<lambda>c. c < 128) kw"
  shows "classify_ipc py [kw] =
     sorted_list_of_set
       (if match_terms (map ascii_lower kw) ipc_mapping {} = {} then {ascii ''G06F''}
        else match_terms (map ascii_lower kw) ipc_mapping {})"
  by (simp add: classify_ipc_def py_lower_ascii [OF assms])

text \<open>
  C6. For every keyword list the classification is sorted and free of duplicates, and it
  holds exactly the codes of the table entries whose term occurs in a lowercased keyword,
  or the single default code when there is none. No keyword gives the default code,
  \<open>battery\<close> gives the one battery code, and \<open>Lithium Battery\<close> gives the codes of the
  entries \<open>battery\<close> and \<open>lithium\<close> together.
\<close>

theorem classify_ipc_contract:
  \<open>sorted (classify_ipc py kws) \<and> distinct (classify_ipc py kws)
   \<and> set (classify_ipc py kws) =
       (if matched_codes py kws = {} then {ascii ''G06F''} else matched_codes py kws)
   \<and> classify_ipc py [] = [ascii ''G06F'']
   \<and> classify_ipc py [ascii ''battery''] = [ascii ''H01M10/05'']
   \<and> classify_ipc py [ascii ''Lithium Battery''] = [ascii ''H01M10/05'', ascii ''H01M10/0525'']\<close>
proof -
  define S where
    "S = (if matched_codes py kws = {} then {ascii ''G06F''} else matched_codes py kws)"
  have fin: "finite S"
    by (simp add: S_def matched_codes_finite)
  have eq: "classify_ipc py kws = sorted_list_of_set S"
    by (simp only: classify_ipc_eq S_def)
  have a: "sorted (classify_ipc py kws)"
    unfolding eq by (rule sorted_sorted_list_of_set)
  have b: "distinct (classify_ipc py kws)"
    unfolding eq by (rule distinct_sorted_list_of_set)
  have c: "set (classify_ipc py kws) = S"
    unfolding eq using fin by (rule set_sorted_list_of_set)
  have d: "classify_ipc py [] = [ascii ''G06F'']"
    by (simp add: classify_ipc_def)
  have e: "classify_ipc py [ascii ''battery''] = [ascii ''H01M10/05'']"
  proof -
    have k: "list_all (\<lambda>c. c < 128) (ascii ''battery'')"
      by code_simp
    have "sorted_list_of_set
       (if match_terms (map ascii_lower (ascii ''battery'')) ipc_mapping {} = {}
        then {ascii ''G06F''}
        else match_terms (map ascii_lower (ascii ''battery'')) ipc_mapping {})
      = [ascii ''H01M10/05'']"
      by code_simp
    then show ?thesis by (simp only: classify_ipc_single [OF k])
  qed
  have f: "classify_ipc py [ascii ''Lithium Battery'']
      = [ascii ''H01M10/05'', ascii ''H01M10/0525'']"
  proof -
    have k: "list_all (\<lambda>c. c < 128) (ascii ''Lithium Battery'')"
      by code_simp
    have "sorted_list_of_set
       (if match_terms (map ascii_lower (ascii ''Lithium Battery'')) ipc_mapping {} = {}
        then {ascii ''G06F''}
        else match_terms (map ascii_lower (ascii ''Lithium Battery'')) ipc_mapping {})
      = [ascii ''H01M10/05'', ascii ''H01M10/0525'']"
      by code_simp
    then show ?thesis by (simp only: classify_ipc_single [OF k])
  qed
  from a b c d e f show ?thesis
    unfolding S_def by blast
qed

theorem classify_ipc_contract_witness:
  \<open>set (classify_ipc example_py [ascii ''Lithium Battery'', ascii ''sensor'']) =
     {ascii ''G01D5/00'', ascii ''H01M10/05'', ascii ''H01M10/0525''}
   \<and> matched_codes example_py [ascii ''Lithium Battery'', ascii ''sensor''] =
     {ascii ''G01D5/00'', ascii ''H01M10/05'', ascii ''H01M10/0525''}\<close>
proof -
  have m: "matched_codes example_py [ascii ''Lithium Battery'', ascii ''sensor''] =
      {ascii ''G01D5/00'', ascii ''H01M10/05'', ascii ''H01M10/0525''}"
  proof -
    have "collect_codes example_py [ascii ''Lithium Battery'', ascii ''sensor''] {} =
        {ascii ''G01D5/00'', ascii ''H01M10/05'', ascii ''H01M10/0525''}"
      by code_simp
    then show ?thesis by (simp add: collect_codes_set)
  qed
  with classify_ipc_contract [of example_py "[ascii ''Lithium Battery'', ascii ''sensor'']"]
  show ?thesis
    by simp
qed

subsection \<open>The generation client\<close>

text \<open>
  A client whose backend answers two prompts and fails on every other, and a client
  constructed with an empty environment, for the examples below.
\<close>

definition example_backend :: model_inference where
  \<open>example_backend prompt =
     (if prompt = ascii ''ping'' then Inr (ascii '' pong '')
      else if prompt = ascii ''json'' then Inr (ascii ''```json\<newline>{"a":1}\<newline>```'')
      else Inl (OtherError ''ConnectionError''))\<close>

definition example_client :: watsonx_ai where
  "example_client =
     \<lparr> api_key = Some (ascii ''key''),
       watsonx_url = ascii ''https://us-south.ml.cloud.ibm.com'',
       project_id = Some (ascii ''project''),
       model_id = default_model_id,
       model = Some example_backend,
       use_stub = False \<rparr>"

definition stub_client :: watsonx_ai where
  "stub_client = WatsonxAI_init Map.empty None default_model_id"

lemma generate_state: "snd (generate py self prompt) = self"
  by (simp add: generate_def split: option.splits sum.splits)

lemma generate_json_state: "snd (generate_json py self prompt) = self"
proof -
  obtain outcome self' where g: "generate py self prompt = (outcome, self')"
    by (cases "generate py self prompt")
  from generate_state [of py self prompt] g have "self' = self" by simp
  with g show ?thesis
    by (simp add: generate_json_def Let_def split: sum.splits)
qed

lemma generate_json_result:
  "fst (generate_json py self prompt) =
     (case fst (generate py self prompt) of
        Inl e \<Rightarrow> Inl e
      | Inr response \<Rightarrow> json_loads py (clean_response response))"
  by (cases "generate py self prompt")
     (simp add: generate_json_def Let_def split: sum.splits)

lemma generate_stub:
  "use_stub self \<or> model self = None \<or> (\<exists>m e. model self = Some m \<and> m prompt = Inl e)
   \<Longrightarrow> fst (generate py self prompt) = stub_generate py prompt"
  by (auto simp: generate_def)

lemma generate_backend:
  "\<not> use_stub self \<Longrightarrow> model self = Some m \<Longrightarrow> m prompt = Inr r
   \<Longrightarrow> fst (generate py self prompt) = Inr (py_strip r)"
  by (simp add: generate_def)

lemma stub_generate_raises: "\<not> encodable prompt \<Longrightarrow> stub_generate py prompt = Inl UnicodeEncodeError"
  by (simp add: stub_generate_def Let_def)

lemma stub_generate_returns:
  "encodable prompt \<Longrightarrow>
   stub_generate py prompt = Inr (stub_reply py prompt (py_lower py prompt) (digest py prompt))"
  by (simp add: stub_generate_def Let_def)

lemma stub_generate_ascii:
  assumes "list_all (\<lambda>c. c < 128) prompt"
  shows "stub_generate py prompt
    = Inr (stub_reply py prompt (map ascii_lower prompt) (digest py prompt))"
  using stub_generate_returns [OF ascii_encodable [OF assms], of py]
  by (simp add: py_lower_ascii [OF assms])

lemma init_stub_mode:
  assumes "py_not (env ''WATSONX_API_KEY'') \<or> py_not (env ''WATSONX_PROJECT_ID'') \<or> sdk = None
      \<or> (\<exists>connect key project e.
            sdk = Some connect \<and> env ''WATSONX_API_KEY'' = Some key
            \<and> env ''WATSONX_PROJECT_ID'' = Some project
            \<and> connect (case env ''WATSONX_URL'' of
                          None \<Rightarrow> ascii ''https://us-south.ml.cloud.ibm.com'' | Some u \<Rightarrow> u)
                  key mid project = Inl e)"
  shows "use_stub (WatsonxAI_init env sdk mid)"
  using assms
  by (auto simp: WatsonxAI_init_def Let_def split: option.splits sum.splits)

lemma example_client_fields:
  "\<not> use_stub example_client" "model example_client = Some example_backend"
  by (simp_all add: example_client_def)

lemma example_backend_values:
  "example_backend (ascii ''status'') = Inl (OtherError ''ConnectionError'')"
  "example_backend (ascii ''ping'') = Inr (ascii '' pong '')"
  \<open>example_backend (ascii ''json'') = Inr (ascii ''```json\<newline>{"a":1}\<newline>```'')\<close>
  "example_backend [55296] = Inl (OtherError ''ConnectionError'')"
  by (simp_all add: example_backend_def ascii_def)

lemma stub_client_mode: "use_stub stub_client"
  unfolding stub_client_def by (rule init_stub_mode) (simp add: py_not_def)

text \<open>
  C10. No call of \<open>generate\<close> or \<open>generate_json\<close> changes the client: the object after the
  call is the object before it, field by field. So a call on which the backend fails
  answers from the stub and leaves the backend in place: a later call on which the backend
  answers returns the backend's text.
\<close>

theorem generate_keeps_configuration:
  "snd (generate py self prompt) = self
   \<and> snd (generate_json py self prompt) = self
   \<and> use_stub (snd (generate py self prompt)) = use_stub self
   \<and> model (snd (generate py self prompt)) = model self
   \<and> api_key (snd (generate py self prompt)) = api_key self
   \<and> watsonx_url (snd (generate py self prompt)) = watsonx_url self
   \<and> project_id (snd (generate py self prompt)) = project_id self
   \<and> model_id (snd (generate py self prompt)) = model_id self
   \<and> (\<not> use_stub self \<and> model self = Some m \<and> m prompt = Inl e \<and> m later = Inr r \<longrightarrow>
        fst (generate py self prompt) = stub_generate py prompt
        \<and> fst (generate py (snd (generate py self prompt)) later) = Inr (py_strip r))"
  by (simp add: generate_state generate_json_state) (simp add: generate_def)

theorem generate_keeps_configuration_witness:
  "fst (generate example_py example_client (ascii ''status''))
     = stub_generate example_py (ascii ''status'')
   \<and> fst (generate example_py (snd (generate example_py example_client (ascii ''status'')))
          (ascii ''ping''))
     = Inr (ascii ''pong'')"
proof -
  have c: "py_strip (ascii '' pong '') = ascii ''pong''"
    by (simp add: py_strip_def py_isspace_def ascii_def)
  from generate_keeps_configuration
    [of example_py example_client "ascii ''status''" example_backend
        "OtherError ''ConnectionError''" "ascii ''ping''" "ascii '' pong ''"]
    example_client_fields example_backend_values c
  show ?thesis by (simp add: generate_state)
qed

text \<open>
  C8, as the code has it. On a prompt that holds a surrogate code point the stub raises
  \<open>UnicodeEncodeError\<close> where it encodes the prompt, and \<open>generate\<close> with it: in stub mode,
  and from the handler of a failed backend call.
\<close>

theorem generate_raises_counterexample:
  "fst (generate example_py stub_client [55296]) = Inl UnicodeEncodeError
   \<and> fst (generate example_py example_client [55296]) = Inl UnicodeEncodeError"
proof -
  have n: "\<not> encodable [55296]"
    by (simp add: encodable_def is_surrogate_def)
  have a: "fst (generate example_py stub_client [55296]) = stub_generate example_py [55296]"
    by (rule generate_stub) (simp add: stub_client_mode)
  have b: "fst (generate example_py example_client [55296]) = stub_generate example_py [55296]"
    by (rule generate_stub) (simp add: example_client_fields example_backend_values)
  from a b stub_generate_raises [OF n] show ?thesis by simp
qed

text \<open>
  C8, amended. On every prompt without a surrogate code point \<open>generate\<close> raises nothing
  and returns a text. The text is the stub's for that prompt when the client is in stub
  mode, when it has no backend, and when the backend's call raises. A client constructed
  without a key or a project, without the SDK, or with an SDK whose constructor raises, is
  in stub mode.
\<close>

theorem generate_returns_text:
  assumes "encodable prompt"
  shows "(\<exists>text. fst (generate py self prompt) = Inr text)
   \<and> (use_stub self \<or> model self = None \<or> (\<exists>m e. model self = Some m \<and> m prompt = Inl e)
        \<longrightarrow> (\<exists>text. stub_generate py prompt = Inr text
                    \<and> fst (generate py self prompt) = Inr text))
   \<and> (py_not (env ''WATSONX_API_KEY'') \<or> py_not (env ''WATSONX_PROJECT_ID'') \<or> sdk = None
        \<or> (\<exists>connect key project e.
              sdk = Some connect \<and> env ''WATSONX_API_KEY'' = Some key
              \<and> env ''WATSONX_PROJECT_ID'' = Some project
              \<and> connect (case env ''WATSONX_URL'' of
                            None \<Rightarrow> ascii ''https://us-south.ml.cloud.ibm.com'' | Some u \<Rightarrow> u)
                    key mid project = Inl e)
        \<longrightarrow> use_stub (WatsonxAI_init env sdk mid)
            \<and> (\<exists>text. stub_generate py prompt = Inr text
                    \<and> fst (generate py (WatsonxAI_init env sdk mid) prompt) = Inr text))"
proof -
  from stub_generate_returns [OF assms] obtain reply where t: "stub_generate py prompt = Inr reply"
    by simp
  have a: "\<exists>text. fst (generate py self prompt) = Inr text"
    using t by (auto simp: generate_def split: option.splits sum.splits)
  have b: "\<exists>text. stub_generate py prompt = Inr text \<and> fst (generate py self prompt) = Inr text"
    if "use_stub self \<or> model self = None \<or> (\<exists>m e. model self = Some m \<and> m prompt = Inl e)"
    using generate_stub [OF that, of py] t by simp
  have c: "use_stub (WatsonxAI_init env sdk mid)
      \<and> (\<exists>text. stub_generate py prompt = Inr text
              \<and> fst (generate py (WatsonxAI_init env sdk mid) prompt) = Inr text)"
    if "py_not (env ''WATSONX_API_KEY'') \<or> py_not (env ''WATSONX_PROJECT_ID'') \<or> sdk = None
        \<or> (\<exists>connect key project e.
              sdk = Some connect \<and> env ''WATSONX_API_KEY'' = Some key
              \<and> env ''WATSONX_PROJECT_ID'' = Some project
              \<and> connect (case env ''WATSONX_URL'' of
                            None \<Rightarrow> ascii ''https://us-south.ml.cloud.ibm.com'' | Some u \<Rightarrow> u)
                    key mid project = Inl e)"
  proof -
    from init_stub_mode [OF that] have u: "use_stub (WatsonxAI_init env sdk mid)" .
    then have "fst (generate py (WatsonxAI_init env sdk mid) prompt) = stub_generate py prompt"
      by (simp add: generate_stub)
    with u t show ?thesis by simp
  qed
  from a b c show ?thesis by blast
qed

theorem generate_returns_text_witness:
  "fst (generate example_py example_client (ascii ''status''))
     = Inr (ascii ''Analysis generated with dynamic response (seed: 6)'')
   \<and> use_stub (WatsonxAI_init Map.empty None default_model_id)
   \<and> fst (generate example_py (WatsonxAI_init Map.empty None default_model_id) (ascii ''status''))
     = Inr (ascii ''Analysis generated with dynamic response (seed: 6)'')"
proof -
  have a: "list_all (\<lambda>c. c < 128) (ascii ''status'')"
    by code_simp
  have "stub_reply example_py (ascii ''status'') (map ascii_lower (ascii ''status''))
      (digest example_py (ascii ''status''))
      = ascii ''Analysis generated with dynamic response (seed: 6)''"
    by code_simp
  then have s: "stub_generate example_py (ascii ''status'')
      = Inr (ascii ''Analysis generated with dynamic response (seed: 6)'')"
    by (simp only: stub_generate_ascii [OF a])
  have e: "encodable (ascii ''status'')"
    using a by (rule ascii_encodable)
  have n: "py_not (Map.empty ''WATSONX_API_KEY'')"
    by (simp add: py_not_def)
  from generate_returns_text
    [OF e, of example_py example_client Map.empty None default_model_id]
    example_client_fields example_backend_values s n
  show ?thesis by simp
qed

text \<open>
  C7. \<open>generate_json\<close> hands to \<open>json.loads\<close> the generated text with the two markers
  removed and the result stripped, and the outcome of \<open>json.loads\<close> is the outcome of the
  call: its value when it accepts the text, its exception when it does not. An exception
  of \<open>generate\<close> is the outcome as well. On the backend's reply \<open>```json\n{"a":1}\n```\<close>
  the text handed over is \<open>{"a":1}\<close>, so the call returns the object with the one member
  \<open>a\<close> equal to 1 that \<open>json.loads\<close> reads from this text.
\<close>

theorem generate_json_parses_cleaned_text:
  \<open>(fst (generate py self prompt) = Inr response \<longrightarrow>
      fst (generate_json py self prompt) =
        json_loads py (py_strip (py_replace (ascii ''```'') []
          (py_replace (ascii ''```json'') [] response))))
   \<and> (fst (generate py self prompt) = Inr response
        \<and> json_loads py (clean_response response) = Inr v
      \<longrightarrow> fst (generate_json py self prompt) = Inr v)
   \<and> (fst (generate py self prompt) = Inr response
        \<and> json_loads py (clean_response response) = Inl e
      \<longrightarrow> fst (generate_json py self prompt) = Inl e)
   \<and> (fst (generate py self prompt) = Inl e \<longrightarrow> fst (generate_json py self prompt) = Inl e)
   \<and> (\<not> use_stub self \<and> model self = Some m
        \<and> m prompt = Inr (ascii ''```json\<newline>{"a":1}\<newline>```'')
      \<longrightarrow> fst (generate_json py self prompt) = json_loads py (ascii ''{"a":1}''))
   \<and> (\<not> use_stub self \<and> model self = Some m
        \<and> m prompt = Inr (ascii ''```json\<newline>{"a":1}\<newline>```'')
        \<and> json_loads py (ascii ''{"a":1}'') = Inr (JObject [(ascii ''a'', JInt 1)])
      \<longrightarrow> fst (generate_json py self prompt) = Inr (JObject [(ascii ''a'', JInt 1)]))\<close>
proof -
  have p: \<open>clean_response (py_strip (ascii ''```json\<newline>{"a":1}\<newline>```'')) = ascii ''{"a":1}''\<close>
    by (simp add: clean_response_def py_strip_def py_isspace_def ascii_def)
  have b: \<open>fst (generate_json py self prompt) = json_loads py (ascii ''{"a":1}'')\<close>
    if \<open>\<not> use_stub self \<and> model self = Some m
        \<and> m prompt = Inr (ascii ''```json\<newline>{"a":1}\<newline>```'')\<close>
    using that p generate_backend [of self m prompt _ py]
    by (simp add: generate_json_result)
  show ?thesis
    using b by (simp add: generate_json_result clean_response_def)
qed

theorem generate_json_parses_cleaned_text_witness:
  \<open>fst (generate_json example_py example_client (ascii ''json''))
     = Inr (JObject [(ascii ''a'', JInt 1)])
   \<and> fst (generate_json example_py example_client (ascii ''ping'')) = Inl JSONDecodeError\<close>
proof -
  have "py_strip (ascii '' pong '') = ascii ''pong''"
    by (simp add: py_strip_def py_isspace_def ascii_def)
  then have g: "fst (generate example_py example_client (ascii ''ping'')) = Inr (ascii ''pong'')"
    using generate_backend [of example_client example_backend "ascii ''ping''" _ example_py]
      example_client_fields example_backend_values
    by simp
  have l: "json_loads example_py (clean_response (ascii ''pong'')) = Inl JSONDecodeError"
    by (simp add: clean_response_def py_strip_def py_isspace_def ascii_def example_py_def
        example_texts_def)
  have r: \<open>json_loads example_py (ascii ''{"a":1}'') = Inr (JObject [(ascii ''a'', JInt 1)])\<close>
    by (simp add: example_py_def example_texts_def)
  have h: \<open>\<not> use_stub example_client \<and> model example_client = Some example_backend
      \<and> example_backend (ascii ''json'') = Inr (ascii ''```json\<newline>{"a":1}\<newline>```'')
      \<and> json_loads example_py (ascii ''{"a":1}'') = Inr (JObject [(ascii ''a'', JInt 1)])\<close>
    using example_client_fields example_backend_values r by simp
  from h generate_json_parses_cleaned_text
    [of example_py example_client "ascii ''json''" "[]" JNull JSONDecodeError example_backend]
  have a: "fst (generate_json example_py example_client (ascii ''json''))
      = Inr (JObject [(ascii ''a'', JInt 1)])"
    by blast
  from g l generate_json_parses_cleaned_text
    [of example_py example_client "ascii ''ping''" "ascii ''pong''" JNull JSONDecodeError
        example_backend]
  have b: "fst (generate_json example_py example_client (ascii ''ping'')) = Inl JSONDecodeError"
    by blast
  from a b show ?thesis by simp
qed

subsection \<open>The stub responder\<close>

text \<open>The two dictionaries of the stub, as functions of what varies in them.\<close>

definition patentability_reply :: "bool \<Rightarrow> nat \<Rightarrow> json" where
  "patentability_reply is_patentable score =
     JObject
       [(ascii ''isPatentable'', JBool is_patentable),
        (ascii ''confidence'', JInt (int score)),
        (ascii ''reasoning'', JString (ascii ''Analysis indicates ''
            @ (if is_patentable then ascii ''patentable'' else ascii ''publishable'')
            @ ascii '' disclosure'')),
        (ascii ''missingElements'',
           JArray (if is_patentable then []
                   else [JString (ascii ''Specific implementation details''),
                         JString (ascii ''Manufacturing specifications'')])),
        (ascii ''recommendations'',
           JArray [JString (ascii ''Review disclosure against prior art''),
                   JString (ascii ''Consider claim scope'')])]"

definition similarity_reply :: "nat \<Rightarrow> json" where
  "similarity_reply similarity_score =
     JObject
       [(ascii ''similarity_score'', JFloat (Finite (of_nat similarity_score))),
        (ascii ''overlapping_concepts'',
           JArray (if 60 < similarity_score
                   then [JString (ascii ''Technical architecture similarity''),
                         JString (ascii ''Implementation approach''),
                         JString (ascii ''Performance optimization strategy'')]
                   else [JString (ascii ''Generic technological domain'')])),
        (ascii ''key_differences'',
           JArray [JString (ascii ''Novel algorithm implementation''),
                   JString (ascii ''Enhanced efficiency metrics''),
                   JString (ascii ''Improved scaling approach'')])]"

text \<open>The words the patentability branch looks for.\<close>

definition trigger_word :: "pystr \<Rightarrow> bool" where
  "trigger_word prompt_lower =
     (py_in (ascii ''device'') prompt_lower \<or> py_in (ascii ''method'') prompt_lower
      \<or> py_in (ascii ''system'') prompt_lower \<or> py_in (ascii ''process'') prompt_lower)"

lemma stub_reply_patentability:
  assumes "py_in (ascii ''patentability'') prompt_lower
      \<or> py_in (ascii ''patentable'') prompt_lower"
  shows "stub_reply py prompt prompt_lower prompt_hash =
     json_dumps py (patentability_reply (trigger_word prompt_lower) (60 + prompt_hash mod 35))"
proof -
  have "min 95 (60 + prompt_hash mod 35) = 60 + prompt_hash mod 35"
    by simp
  with assms show ?thesis
    by (simp only: stub_reply_def Let_def patentability_reply_def trigger_word_def if_True)
qed

lemma stub_reply_similarity:
  assumes "\<not> (py_in (ascii ''patentability'') prompt_lower
        \<or> py_in (ascii ''patentable'') prompt_lower)"
    and "py_in (ascii ''similarity'') prompt_lower \<or> py_in (ascii ''compare'') prompt_lower"
  shows "stub_reply py prompt prompt_lower prompt_hash =
     json_dumps py (similarity_reply
       (min 95 (max 10 (prompt_hash mod 40 + 40
          + 2 * (py_count (ascii ''innovation'') prompt_lower
                 + py_count (ascii ''feature'') prompt_lower)))))"
proof -
  have "(py_count (ascii ''innovation'') prompt_lower
         + py_count (ascii ''feature'') prompt_lower) * 2
      = 2 * (py_count (ascii ''innovation'') prompt_lower
             + py_count (ascii ''feature'') prompt_lower)"
    by simp
  with assms show ?thesis
    by (simp only: stub_reply_def Let_def similarity_reply_def if_True if_False)
qed

lemma surrogate_tail: "\<not> encodable (s @ [55296])"
  by (simp add: encodable_def is_surrogate_def)

text \<open>
  C4, as the code has it. The prompt \<open>patentable\<close> followed by a surrogate code point
  contains \<open>patentable\<close> when lowercased, and on it the stub raises \<open>UnicodeEncodeError\<close>
  and returns nothing.
\<close>

theorem stub_patentability_counterexample:
  "py_in (ascii ''patentable'') (py_lower example_py (ascii ''patentable'' @ [55296]))
   \<and> stub_generate example_py (ascii ''patentable'' @ [55296]) = Inl UnicodeEncodeError"
proof -
  have a: "list_all (\<lambda>c. c < 128) (ascii ''patentable'')"
    by (simp add: ascii_def)
  have b: "py_in (ascii ''patentable'') (map ascii_lower (ascii ''patentable''))"
    by (simp add: ascii_def ascii_lower_def)
  from py_lower_head [OF a b] stub_generate_raises [OF surrogate_tail] show ?thesis
    by blast
qed

text \<open>
  C4, amended. For every prompt without a surrogate code point whose lowercased text
  contains \<open>patentability\<close> or \<open>patentable\<close>, the stub returns what \<open>json.dumps\<close> writes
  for the dictionary in which \<open>isPatentable\<close> says whether the lowercased prompt contains
  one of \<open>device\<close>, \<open>method\<close>, \<open>system\<close>, \<open>process\<close>, \<open>confidence\<close> is
  \<open>min(95, 60 + digest mod 35)\<close>, \<open>missingElements\<close> is empty when patentable and the two
  fixed items otherwise, and \<open>recommendations\<close> is the two fixed items. The confidence
  lies between 60 and 95.
\<close>

theorem stub_patentability_shape:
  assumes "encodable prompt"
    and "py_in (ascii ''patentability'') (py_lower py prompt)
      \<or> py_in (ascii ''patentable'') (py_lower py prompt)"
  shows
    "(let prompt_lower = py_lower py prompt;
          is_patentable =
            (py_in (ascii ''device'') prompt_lower \<or> py_in (ascii ''method'') prompt_lower
             \<or> py_in (ascii ''system'') prompt_lower \<or> py_in (ascii ''process'') prompt_lower);
          confidence = min 95 (60 + digest py prompt mod 35)
      in 60 \<le> confidence \<and> confidence \<le> 95
         \<and> stub_generate py prompt =
             Inr (json_dumps py (JObject
               [(ascii ''isPatentable'', JBool is_patentable),
                (ascii ''confidence'', JInt (int confidence)),
                (ascii ''reasoning'', JString (ascii ''Analysis indicates ''
                    @ (if is_patentable then ascii ''patentable'' else ascii ''publishable'')
                    @ ascii '' disclosure'')),
                (ascii ''missingElements'',
                   JArray (if is_patentable then []
                           else [JString (ascii ''Specific implementation details''),
                                 JString (ascii ''Manufacturing specifications'')])),
                (ascii ''recommendations'',
                   JArray [JString (ascii ''Review disclosure against prior art''),
                           JString (ascii ''Consider claim scope'')])])))"
proof -
  have m: "min 95 (60 + digest py prompt mod 35) = 60 + digest py prompt mod 35"
    by simp
  have r: "60 \<le> 60 + digest py prompt mod 35 \<and> 60 + digest py prompt mod 35 \<le> 95"
    by simp
  have "stub_generate py prompt =
      Inr (json_dumps py (patentability_reply (trigger_word (py_lower py prompt))
        (60 + digest py prompt mod 35)))"
    by (simp only: stub_generate_returns [OF assms(1)] stub_reply_patentability [OF assms(2)])
  with r show ?thesis
    by (simp only: Let_def m patentability_reply_def trigger_word_def)
qed

theorem stub_patentability_shape_witness:
  "stub_generate example_py (ascii ''Is this device patentable?'') =
     Inr (json_dumps example_py (JObject
       [(ascii ''isPatentable'', JBool True),
        (ascii ''confidence'', JInt 86),
        (ascii ''reasoning'', JString (ascii ''Analysis indicates patentable disclosure'')),
        (ascii ''missingElements'', JArray []),
        (ascii ''recommendations'',
           JArray [JString (ascii ''Review disclosure against prior art''),
                   JString (ascii ''Consider claim scope'')])]))"
proof -
  have a: "list_all (\<lambda>c. c < 128) (ascii ''Is this device patentable?'')"
    by (simp add: ascii_def)
  have l: "py_lower example_py (ascii ''Is this device patentable?'')
      = ascii ''is this device patentable?''"
    by (simp add: py_lower_ascii [OF a]) (simp add: ascii_def ascii_lower_def)
  have p: "py_in (ascii ''patentable'') (ascii ''is this device patentable?'')"
    "py_in (ascii ''device'') (ascii ''is this device patentable?'')"
    by (simp_all add: ascii_def)
  have d: "digest example_py (ascii ''Is this device patentable?'') = 26"
    by (simp add: example_py_def ascii_def)
  have r: "ascii ''Analysis indicates '' @ ascii ''patentable'' @ ascii '' disclosure''
      = ascii ''Analysis indicates patentable disclosure''"
    by (simp add: ascii_def)
  from stub_patentability_shape [of "ascii ''Is this device patentable?''" example_py]
    ascii_encodable [OF a] p
  show ?thesis
    by (simp add: l d r Let_def)
qed

text \<open>
  C5, as the code has it. The prompt \<open>compare\<close> followed by a surrogate code point
  contains \<open>compare\<close> and neither patentability marker when lowercased, and on it the stub
  raises \<open>UnicodeEncodeError\<close> and returns nothing.
\<close>

theorem stub_similarity_counterexample:
  "py_in (ascii ''compare'') (py_lower example_py (ascii ''compare'' @ [55296]))
   \<and> \<not> py_in (ascii ''patentability'') (py_lower example_py (ascii ''compare'' @ [55296]))
   \<and> \<not> py_in (ascii ''patentable'') (py_lower example_py (ascii ''compare'' @ [55296]))
   \<and> stub_generate example_py (ascii ''compare'' @ [55296]) = Inl UnicodeEncodeError"
proof -
  have l: "py_lower example_py (ascii ''compare'' @ [55296]) = ascii ''compare'' @ [55296]"
    by (simp add: py_lower_def example_py_def ascii_def ascii_lower_def)
  have "py_in (ascii ''compare'') (ascii ''compare'' @ [55296])"
    "\<not> py_in (ascii ''patentability'') (ascii ''compare'' @ [55296])"
    "\<not> py_in (ascii ''patentable'') (ascii ''compare'' @ [55296])"
    by (simp_all add: ascii_def)
  with stub_generate_raises [OF surrogate_tail, of example_py "ascii ''compare''"] show ?thesis
    by (simp only: l) simp
qed

text \<open>
  C5, amended. For every prompt without a surrogate code point whose lowercased text
  contains \<open>similarity\<close> or \<open>compare\<close> and neither patentability marker, the stub returns
  what \<open>json.dumps\<close> writes for the dictionary in which \<open>similarity_score\<close> is the float of
  \<open>digest mod 40 + 40\<close> plus twice the occurrences of \<open>innovation\<close> and \<open>feature\<close> in the
  lowercased prompt, clamped to the range from 10 to 95, \<open>overlapping_concepts\<close> is the
  three fixed items when the score is above 60 and the one generic item otherwise, and
  \<open>key_differences\<close> is the three fixed items.
\<close>

theorem stub_similarity_shape:
  assumes "encodable prompt"
    and "\<not> py_in (ascii ''patentability'') (py_lower py prompt)"
    and "\<not> py_in (ascii ''patentable'') (py_lower py prompt)"
    and "py_in (ascii ''similarity'') (py_lower py prompt)
      \<or> py_in (ascii ''compare'') (py_lower py prompt)"
  shows
    "(let prompt_lower = py_lower py prompt;
          occurrences = py_count (ascii ''innovation'') prompt_lower
                        + py_count (ascii ''feature'') prompt_lower;
          similarity_score = min 95 (max 10 (digest py prompt mod 40 + 40 + 2 * occurrences))
      in 10 \<le> similarity_score \<and> similarity_score \<le> 95
         \<and> stub_generate py prompt =
             Inr (json_dumps py (JObject
               [(ascii ''similarity_score'', JFloat (Finite (of_nat similarity_score))),
                (ascii ''overlapping_concepts'',
                   JArray (if 60 < similarity_score
                           then [JString (ascii ''Technical architecture similarity''),
                                 JString (ascii ''Implementation approach''),
                                 JString (ascii ''Performance optimization strategy'')]
                           else [JString (ascii ''Generic technological domain'')])),
                (ascii ''key_differences'',
                   JArray [JString (ascii ''Novel algorithm implementation''),
                           JString (ascii ''Enhanced efficiency metrics''),
                           JString (ascii ''Improved scaling approach'')])])))"
proof -
  from assms(2,3) have n: "\<not> (py_in (ascii ''patentability'') (py_lower py prompt)
      \<or> py_in (ascii ''patentable'') (py_lower py prompt))"
    by simp
  have "stub_generate py prompt =
      Inr (json_dumps py (similarity_reply
        (min 95 (max 10 (digest py prompt mod 40 + 40
           + 2 * (py_count (ascii ''innovation'') (py_lower py prompt)
                  + py_count (ascii ''feature'') (py_lower py prompt)))))))"
    by (simp only: stub_generate_returns [OF assms(1)] stub_reply_similarity [OF n assms(4)])
  then show ?thesis
    by (simp only: Let_def similarity_reply_def) simp
qed

theorem stub_similarity_shape_witness:
  "stub_generate example_py (ascii ''Compare this feature with that innovation'') =
     Inr (json_dumps example_py (JObject
       [(ascii ''similarity_score'', JFloat (Finite 45)),
        (ascii ''overlapping_concepts'', JArray [JString (ascii ''Generic technological domain'')]),
        (ascii ''key_differences'',
           JArray [JString (ascii ''Novel algorithm implementation''),
                   JString (ascii ''Enhanced efficiency metrics''),
                   JString (ascii ''Improved scaling approach'')])]))"
proof -
  have a: "list_all (\<lambda>c. c < 128) (ascii ''Compare this feature with that innovation'')"
    by (simp add: ascii_def)
  have l: "py_lower example_py (ascii ''Compare this feature with that innovation'')
      = ascii ''compare this feature with that innovation''"
    by (simp add: py_lower_ascii [OF a]) (simp add: ascii_def ascii_lower_def)
  have p: "py_in (ascii ''compare'') (ascii ''compare this feature with that innovation'')"
    "\<not> py_in (ascii ''patentability'') (ascii ''compare this feature with that innovation'')"
    "\<not> py_in (ascii ''patentable'') (ascii ''compare this feature with that innovation'')"
    by (simp_all add: ascii_def)
  have c: "py_count (ascii ''innovation'') (ascii ''compare this feature with that innovation'') = 1"
    "py_count (ascii ''feature'') (ascii ''compare this feature with that innovation'') = 1"
    by (simp_all add: ascii_def)
  have d: "digest example_py (ascii ''Compare this feature with that innovation'') = 41"
    by (simp add: example_py_def ascii_def)
  from stub_similarity_shape [of "ascii ''Compare this feature with that innovation''" example_py]
    ascii_encodable [OF a] p
  show ?thesis
    by (simp add: l d c Let_def)
qed

subsection \<open>Patentability\<close>

text \<open>
  Extractors for the examples: one in stub mode and one whose backend answers every
  prompt with a confidence of 150. The NLU client of both returns no keyword for the empty
  text, fails on one text, returns a keyword without its text on another, and one keyword
  on every other.
\<close>

definition example_nlu :: "pystr \<Rightarrow> exn + json" where
  "example_nlu text =
     (if text = [] then Inr (JObject [(ascii ''keywords'', JArray [])])
      else if text = ascii ''down'' then Inl (OtherError ''TimeoutError'')
      else if text = ascii ''malformed'' then
        Inr (JObject [(ascii ''keywords'', JArray [JObject [(ascii ''relevance'', JInt 1)]])])
      else
        Inr (JObject [(ascii ''keywords'',
               JArray [JObject [(ascii ''text'', JString (ascii ''Lithium Battery''))]])]))"

definition stub_extractor :: claim_extractor where
  "stub_extractor = \<lparr> watsonx_nlu = example_nlu, watsonx_ai = stub_client \<rparr>"

definition confident_extractor :: claim_extractor where
  \<open>confident_extractor =
     \<lparr> watsonx_nlu = example_nlu,
       watsonx_ai = example_client \<lparr> model := Some (\<lambda>prompt. Inr (ascii ''{"confidence": 150}'')) \<rparr> \<rparr>\<close>

text \<open>A confidence that is a number between 0 and 100.\<close>

fun within_0_100 :: "json \<Rightarrow> bool" where
  "within_0_100 (JInt i) = (0 \<le> i \<and> i \<le> 100)"
| "within_0_100 (JFloat (Finite q)) = (0 \<le> q \<and> q \<le> 100)"
| "within_0_100 (JFloat NegZero) = True"
| "within_0_100 v = False"

text \<open>The prompt holds the marker and the trigger words, whatever the disclosure.\<close>

lemma head_ascii: "list_all (\<lambda>c. c < 128) patentability_head"
  by (simp add: patentability_head_def ascii_def)

lemma tail_ascii: "list_all (\<lambda>c. c < 128) patentability_tail"
  by (simp add: patentability_tail_def ascii_def)

lemma head_words:
  "py_in (ascii ''patentable'') (map ascii_lower patentability_head)"
  "py_in (ascii ''device'') (map ascii_lower patentability_head)"
  "py_in (ascii ''method'') (map ascii_lower patentability_head)"
  "py_in (ascii ''process'') (map ascii_lower patentability_head)"
  by (simp_all add: patentability_head_def ascii_def ascii_lower_def)

lemma prompt_words:
  "py_in (ascii ''patentable'') (py_lower py (patentability_prompt text))"
  "py_in (ascii ''device'') (py_lower py (patentability_prompt text))"
  "py_in (ascii ''method'') (py_lower py (patentability_prompt text))"
  "py_in (ascii ''process'') (py_lower py (patentability_prompt text))"
  unfolding patentability_prompt_def
  by (rule py_lower_head [OF head_ascii], rule head_words)+

lemma prompt_encodable: "encodable (patentability_prompt text) = encodable (take 2000 text)"
  by (simp add: patentability_prompt_def encodable_append
      ascii_encodable [OF head_ascii] ascii_encodable [OF tail_ascii])

lemma stub_generate_prompt:
  assumes "encodable (take 2000 text)"
  shows "stub_generate py (patentability_prompt text) =
     Inr (json_dumps py (patentability_reply True
       (60 + digest py (patentability_prompt text) mod 35)))"
proof -
  from assms have e: "encodable (patentability_prompt text)"
    by (simp add: prompt_encodable)
  have t: "trigger_word (py_lower py (patentability_prompt text))"
    by (simp add: trigger_word_def prompt_words)
  have "stub_reply py (patentability_prompt text) (py_lower py (patentability_prompt text))
      (digest py (patentability_prompt text))
    = json_dumps py (patentability_reply
        (trigger_word (py_lower py (patentability_prompt text)))
        (60 + digest py (patentability_prompt text) mod 35))"
    by (rule stub_reply_patentability) (simp add: prompt_words)
  with t show ?thesis
    by (simp add: stub_generate_returns [OF e])
qed

lemma reply_fields:
  "dict_get d (ascii ''isPatentable'') (JBool True) = JBool True"
  "dict_get d (ascii ''confidence'') (JInt 50) = JInt (int c)"
  "dict_get d (ascii ''missingElements'') (JArray []) = JArray []"
  "dict_get d (ascii ''recommendations'') (JArray []) =
     JArray [JString (ascii ''Review disclosure against prior art''),
             JString (ascii ''Consider claim scope'')]"
  if "patentability_reply True c = JObject d"
  using that by (auto simp: patentability_reply_def dict_get_def ascii_def)

lemma assess_patentability_cases:
  "assess_patentability py ce text =
     (case fst (generate py (watsonx_ai ce) (patentability_prompt text)) of
        Inl e \<Rightarrow> assessment_failed
      | Inr response \<Rightarrow>
          (case json_loads py (clean_response response) of
             Inr (JObject d) \<Rightarrow>
               \<lparr> isPatentable = dict_get d (ascii ''isPatentable'') (JBool True),
                 confidence = dict_get d (ascii ''confidence'') (JInt 50),
                 missingElements = dict_get d (ascii ''missingElements'') (JArray []),
                 recommendations = dict_get d (ascii ''recommendations'') (JArray []) \<rparr>
           | _ \<Rightarrow> assessment_failed))"
  by (simp add: assess_patentability_def Let_def split: sum.splits json.splits)

text \<open>
  C9, as the code has it. On a disclosure that holds a surrogate code point the prompt
  does not encode, and in stub mode \<open>WatsonxAI.assess_patentability\<close> raises
  \<open>UnicodeEncodeError\<close> instead of reporting an assessment.
\<close>

theorem stub_assessment_counterexample:
  "use_stub stub_client
   \<and> fst (ai_assess_patentability example_py stub_client [55296]) = Inl UnicodeEncodeError"
proof -
  have "\<not> encodable (take 2000 [55296])"
    by (simp add: encodable_def is_surrogate_def)
  then have "\<not> encodable (patentability_prompt [55296])"
    by (simp add: prompt_encodable)
  then have "stub_generate example_py (patentability_prompt [55296]) = Inl UnicodeEncodeError"
    by (rule stub_generate_raises)
  moreover have "fst (generate example_py stub_client (patentability_prompt [55296]))
      = stub_generate example_py (patentability_prompt [55296])"
    by (rule generate_stub) (simp add: stub_client_mode)
  ultimately show ?thesis
    by (simp add: ai_assess_patentability_def generate_json_result stub_client_mode)
qed

text \<open>
  C9, amended. The patentability prompt contains \<open>patentable\<close>, \<open>device\<close>, \<open>method\<close> and
  \<open>process\<close> when lowercased, whatever the disclosure. So for every text whose first 2000
  characters hold no surrogate code point, when generation goes through the stub and
  \<open>json.loads\<close> reads the stub's reply back as the dictionary it was written from,
  \<open>WatsonxAI.assess_patentability\<close> returns the dictionary with \<open>isPatentable\<close> true, and
  \<open>ClaimExtractor.assess_patentability\<close> reports \<open>isPatentable\<close> true, with the stub's
  confidence and no missing element. On a text whose first 2000 characters hold a
  surrogate code point \<open>ClaimExtractor.assess_patentability\<close> reports \<open>isPatentable\<close> true
  as well, from its \<open>except\<close> branch.
\<close>

theorem stub_assessment_patentable:
  assumes "use_stub (watsonx_ai ce) \<or> model (watsonx_ai ce) = None
      \<or> (\<exists>m e. model (watsonx_ai ce) = Some m \<and> m (patentability_prompt text) = Inl e)"
  shows
    "py_in (ascii ''patentable'') (py_lower py (patentability_prompt text))
     \<and> py_in (ascii ''device'') (py_lower py (patentability_prompt text))
     \<and> py_in (ascii ''method'') (py_lower py (patentability_prompt text))
     \<and> py_in (ascii ''process'') (py_lower py (patentability_prompt text))
     \<and> (let score = 60 + digest py (patentability_prompt text) mod 35
        in encodable (take 2000 text)
           \<and> json_loads py (clean_response (json_dumps py (patentability_reply True score)))
               = Inr (patentability_reply True score)
           \<longrightarrow> fst (ai_assess_patentability py (watsonx_ai ce) text)
                 = Inr (JObject
                     [(ascii ''isPatentable'', JBool True),
                      (ascii ''confidence'', JInt (int score)),
                      (ascii ''reasoning'',
                         JString (ascii ''Analysis indicates patentable disclosure'')),
                      (ascii ''missingElements'', JArray []),
                      (ascii ''recommendations'',
                         JArray [JString (ascii ''Review disclosure against prior art''),
                                 JString (ascii ''Consider claim scope'')])])
               \<and> assess_patentability py ce text
                 = \<lparr> isPatentable = JBool True,
                     confidence = JInt (int score),
                     missingElements = JArray [],
                     recommendations =
                       JArray [JString (ascii ''Review disclosure against prior art''),
                               JString (ascii ''Consider claim scope'')] \<rparr>)
     \<and> (\<not> encodable (take 2000 text)
        \<longrightarrow> isPatentable (assess_patentability py ce text) = JBool True)"
proof -
  let ?prompt = "patentability_prompt text"
  let ?score = "60 + digest py ?prompt mod 35"
  have g: "fst (generate py (watsonx_ai ce) ?prompt) = stub_generate py ?prompt"
    using assms by (rule generate_stub)
  have r: "patentability_reply True ?score
      = JObject
          [(ascii ''isPatentable'', JBool True),
           (ascii ''confidence'', JInt (int ?score)),
           (ascii ''reasoning'', JString (ascii ''Analysis indicates patentable disclosure'')),
           (ascii ''missingElements'', JArray []),
           (ascii ''recommendations'',
              JArray [JString (ascii ''Review disclosure against prior art''),
                      JString (ascii ''Consider claim scope'')])]"
    by (simp add: patentability_reply_def ascii_def)
  have a: "fst (ai_assess_patentability py (watsonx_ai ce) text)
        = Inr (patentability_reply True ?score)
      \<and> assess_patentability py ce text
        = \<lparr> isPatentable = JBool True,
            confidence = JInt (int ?score),
            missingElements = JArray [],
            recommendations =
              JArray [JString (ascii ''Review disclosure against prior art''),
                      JString (ascii ''Consider claim scope'')] \<rparr>"
    if e: "encodable (take 2000 text)"
      and l: "json_loads py (clean_response (json_dumps py (patentability_reply True ?score)))
        = Inr (patentability_reply True ?score)"
  proof -
    from g stub_generate_prompt [OF e, of py]
    have s: "fst (generate py (watsonx_ai ce) ?prompt)
        = Inr (json_dumps py (patentability_reply True ?score))"
      by simp
    from s l have one: "fst (ai_assess_patentability py (watsonx_ai ce) text)
        = Inr (patentability_reply True ?score)"
      by (simp add: ai_assess_patentability_def generate_json_result)
    obtain d where d: "patentability_reply True ?score = JObject d"
      by (simp add: patentability_reply_def)
    from s l d have "assess_patentability py ce text
        = \<lparr> isPatentable = dict_get d (ascii ''isPatentable'') (JBool True),
            confidence = dict_get d (ascii ''confidence'') (JInt 50),
            missingElements = dict_get d (ascii ''missingElements'') (JArray []),
            recommendations = dict_get d (ascii ''recommendations'') (JArray []) \<rparr>"
      by (simp add: assess_patentability_cases)
    then have two: "assess_patentability py ce text
        = \<lparr> isPatentable = JBool True,
            confidence = JInt (int ?score),
            missingElements = JArray [],
            recommendations =
              JArray [JString (ascii ''Review disclosure against prior art''),
                      JString (ascii ''Consider claim scope'')] \<rparr>"
      by (simp only: reply_fields [OF d])
    from one two show ?thesis by simp
  qed
  have b: "isPatentable (assess_patentability py ce text) = JBool True"
    if "\<not> encodable (take 2000 text)"
  proof -
    from that have "\<not> encodable ?prompt" by (simp add: prompt_encodable)
    from stub_generate_raises [OF this, of py] g
    show ?thesis
      by (simp add: assess_patentability_cases assessment_failed_def)
  qed
  from a b show ?thesis
    by (simp only: Let_def prompt_words r [symmetric]) blast
qed

lemma stub_extractor_fields:
  "watsonx_ai stub_extractor = stub_client" "use_stub (watsonx_ai stub_extractor)"
  by (simp_all add: stub_extractor_def stub_client_mode)

lemma observations_ascii: "list_all (\<lambda>c. c < 128) (ascii ''Observations only'')"
  by (simp add: ascii_def)

lemma observations_digest:
  "digest example_py (patentability_prompt (ascii ''Observations only'')) = 768"
  by (simp add: example_py_def patentability_prompt_def patentability_head_def
      patentability_tail_def ascii_def)

lemma example_reads_reply:
  "json_loads example_py (clean_response (json_dumps example_py (patentability_reply True 93)))
     = Inr (patentability_reply True 93)"
proof -
  have d: \<open>json_dumps example_py (patentability_reply True 93)
      = ascii (''{"isPatentable": true, "confidence": 93, ''
              @ ''"reasoning": "Analysis indicates patentable disclosure", ''
              @ ''"missingElements": [], ''
              @ ''"recommendations": ["Review disclosure against prior art", ''
              @ ''"Consider claim scope"]}'')\<close>
    by (simp add: example_py_def example_texts_def patentability_reply_def ascii_def)
  have c: \<open>clean_response
        (ascii (''{"isPatentable": true, "confidence": 93, ''
              @ ''"reasoning": "Analysis indicates patentable disclosure", ''
              @ ''"missingElements": [], ''
              @ ''"recommendations": ["Review disclosure against prior art", ''
              @ ''"Consider claim scope"]}''))
      = ascii (''{"isPatentable": true, "confidence": 93, ''
              @ ''"reasoning": "Analysis indicates patentable disclosure", ''
              @ ''"missingElements": [], ''
              @ ''"recommendations": ["Review disclosure against prior art", ''
              @ ''"Consider claim scope"]}'')\<close>
    by (simp add: clean_response_def py_strip_def py_isspace_def ascii_def)
  have l: \<open>json_loads example_py
        (ascii (''{"isPatentable": true, "confidence": 93, ''
              @ ''"reasoning": "Analysis indicates patentable disclosure", ''
              @ ''"missingElements": [], ''
              @ ''"recommendations": ["Review disclosure against prior art", ''
              @ ''"Consider claim scope"]}''))
      = Inr (patentability_reply True 93)\<close>
    by (simp add: example_py_def example_texts_def patentability_reply_def ascii_def)
  show ?thesis by (simp only: d c l)
qed

theorem stub_assessment_patentable_witness:
  "fst (ai_assess_patentability example_py stub_client (ascii ''Observations only''))
     = Inr (JObject
         [(ascii ''isPatentable'', JBool True),
          (ascii ''confidence'', JInt 93),
          (ascii ''reasoning'', JString (ascii ''Analysis indicates patentable disclosure'')),
          (ascii ''missingElements'', JArray []),
          (ascii ''recommendations'',
             JArray [JString (ascii ''Review disclosure against prior art''),
                     JString (ascii ''Consider claim scope'')])])
   \<and> assess_patentability example_py stub_extractor (ascii ''Observations only'')
     = \<lparr> isPatentable = JBool True,
         confidence = JInt 93,
         missingElements = JArray [],
         recommendations =
           JArray [JString (ascii ''Review disclosure against prior art''),
                   JString (ascii ''Consider claim scope'')] \<rparr>
   \<and> isPatentable (assess_patentability example_py stub_extractor [55296]) = JBool True"
proof -
  have e: "encodable (take 2000 (ascii ''Observations only''))"
    by (rule encodable_take, rule ascii_encodable, rule observations_ascii)
  have n: "\<not> encodable (take 2000 [55296])"
    by (simp add: encodable_def is_surrogate_def)
  have u: "use_stub (watsonx_ai stub_extractor) \<or> model (watsonx_ai stub_extractor) = None
      \<or> (\<exists>m e. model (watsonx_ai stub_extractor) = Some m \<and> m prompt = Inl e)" for prompt
    using stub_extractor_fields(2) by blast
  from stub_assessment_patentable [of stub_extractor "ascii ''Observations only''" example_py, OF u]
    e example_reads_reply
  have a: "fst (ai_assess_patentability example_py (watsonx_ai stub_extractor)
        (ascii ''Observations only''))
     = Inr (JObject
         [(ascii ''isPatentable'', JBool True),
          (ascii ''confidence'', JInt 93),
          (ascii ''reasoning'', JString (ascii ''Analysis indicates patentable disclosure'')),
          (ascii ''missingElements'', JArray []),
          (ascii ''recommendations'',
             JArray [JString (ascii ''Review disclosure against prior art''),
                     JString (ascii ''Consider claim scope'')])])
   \<and> assess_patentability example_py stub_extractor (ascii ''Observations only'')
     = \<lparr> isPatentable = JBool True,
         confidence = JInt 93,
         missingElements = JArray [],
         recommendations =
           JArray [JString (ascii ''Review disclosure against prior art''),
                   JString (ascii ''Consider claim scope'')] \<rparr>"
    by (simp add: observations_digest Let_def)
  from stub_assessment_patentable [of stub_extractor "[55296]" example_py, OF u] n
  have b: "isPatentable (assess_patentability example_py stub_extractor [55296]) = JBool True"
    by blast
  from a b show ?thesis
    by (simp add: stub_extractor_fields)
qed

end
